theory Spec2Isabelle
  imports Complex_Main
begin

text \<open>
  A model of the generation pipeline of the devcontainer generator:
  \<open>truncate_context\<close>, \<open>generate_devcontainer_json\<close> and \<open>validate_devcontainer_json\<close> of
  \<open>helpers/devcontainer_helpers.py\<close>, and \<open>get_provider\<close>, \<open>get_default_model\<close> and
  \<open>validate_model_for_provider\<close> of \<open>helpers/llm_provider.py\<close>.

  Functions that raise return a sum, with the exception on the left. What the code
  reaches outside itself is an argument of the model: the process environment, the
  schema file, the libraries \<open>json\<close>, \<open>jsonschema\<close> and \<open>tiktoken\<close>, the template
  renderer and the client. A library call returns or raises as the source provides for
  it: an exception is modelled where the source names it in a handler, where
  \<open>jsonschema.validate\<close> documents it, and for the \<open>open\<close> of the schema file. The
  \<open>logging\<close> calls of the validator are its diagnostics and are kept; those of the other
  functions change no result and are left out.
\<close>

section \<open>Python string and list primitives\<close>

text \<open>
  Strings are lists of characters. The helpers only use a handful of Python string
  operations; each is written out here with the behaviour Python gives it, in
  particular for a substring that is not found (\<open>find\<close> returns \<open>-1\<close>) and for slices
  with a negative bound (they count from the end and never raise).
\<close>

definition startswith :: "string \<Rightarrow> string \<Rightarrow> bool" where
  "startswith s p = (take (length p) s = p)"

text \<open>\<open>find_index sub s\<close> is the lowest position at which \<open>sub\<close> occurs in \<open>s\<close>.\<close>

fun find_index :: "string \<Rightarrow> string \<Rightarrow> nat option" where
  "find_index sub [] = (if sub = [] then Some 0 else None)"
| "find_index sub (c # cs) =
     (if startswith (c # cs) sub then Some 0 else map_option Suc (find_index sub cs))"

text \<open>\<open>s.find(sub)\<close>: the lowest index, or \<open>-1\<close>.\<close>

definition str_find :: "string \<Rightarrow> string \<Rightarrow> int" where
  "str_find s sub = (case find_index sub s of None \<Rightarrow> - 1 | Some i \<Rightarrow> int i)"

text \<open>\<open>sub in s\<close>.\<close>

definition str_in :: "string \<Rightarrow> string \<Rightarrow> bool" where
  "str_in sub s = (find_index sub s \<noteq> None)"

text \<open>\<open>xs[:n]\<close> and \<open>xs[n:]\<close> for a Python int \<open>n\<close>; a negative bound counts from the end,
  clamped at the start of the list.\<close>

definition slice_to :: "'a list \<Rightarrow> int \<Rightarrow> 'a list" where
  "slice_to xs n = (if 0 \<le> n then take (nat n) xs else take (length xs - nat (- n)) xs)"

definition slice_from :: "'a list \<Rightarrow> int \<Rightarrow> 'a list" where
  "slice_from xs n = (if 0 \<le> n then drop (nat n) xs else drop (length xs - nat (- n)) xs)"

section \<open>Token Budgeter: \<open>truncate_context\<close>\<close>

text \<open>
  The tokenizer (\<open>tiktoken.encoding_for_model("gpt-4o-mini")\<close>) is a third-party library:
  it enters the model as a pair of functions, \<open>encode\<close> from text to a token list and
  \<open>decode\<close> back. Nothing is assumed about them except where a theorem says so.
\<close>

record 't tokenizer =
  encode :: "string \<Rightarrow> 't list"
  decode :: "'t list \<Rightarrow> string"

definition LANGUAGES_END :: string where
  "LANGUAGES_END = ''<<END_SECTION: Repository Languages >>''"

definition STRUCTURE_END :: string where
  "STRUCTURE_END = ''<<END_SECTION: Repository Structure >>''"

definition NL :: char where
  "NL = CHR 0x0A"

definition truncate_context :: "'t tokenizer \<Rightarrow> string \<Rightarrow> int \<Rightarrow> string" where
  "truncate_context tk context max_tokens =
     (let tokens = encode tk context in
      if int (length tokens) \<le> max_tokens then context
      else
        let structure_end = str_find context STRUCTURE_END;
            languages_end = str_find context LANGUAGES_END;
            important_content = slice_to context languages_end @ LANGUAGES_END @ [NL, NL];
            remaining_content =
              slice_from context (languages_end + int (length (LANGUAGES_END @ [NL, NL])));
            important_tokens = encode tk important_content
        in
          if int (length important_tokens) > max_tokens
          then decode tk (slice_to important_tokens max_tokens)
          else
            let remaining_tokens = max_tokens - int (length important_tokens);
                truncated_remaining =
                  decode tk (slice_to (encode tk remaining_content) remaining_tokens);
                final_context = important_content @ truncated_remaining
            in final_context)"

text \<open>A tokenizer with one token per character, used to run the definitions.\<close>

definition char_tokenizer :: "char tokenizer" where
  "char_tokenizer = \<lparr>encode = (\<lambda>s. s), decode = (\<lambda>ts. ts)\<rparr>"

section \<open>More string primitives\<close>

text \<open>\<open>s.lower()\<close> on ASCII letters.\<close>

definition lower_char :: "char \<Rightarrow> char" where
  "lower_char c =
     (case map_of (zip ''ABCDEFGHIJKLMNOPQRSTUVWXYZ'' ''abcdefghijklmnopqrstuvwxyz'') c of
        None \<Rightarrow> c
      | Some l \<Rightarrow> l)"

definition str_lower :: "string \<Rightarrow> string" where
  "str_lower s = map lower_char s"

text \<open>\<open>s.strip()\<close>: the ASCII characters for which \<open>str.isspace\<close> holds (tab, line feed,
  vertical tab, form feed, carriage return, the four separators \<open>0x1C\<close> to \<open>0x1F\<close>
  and the space) are removed at both ends.\<close>

definition isspace :: "char \<Rightarrow> bool" where
  "isspace c =
     (c \<in> set [CHR 0x09, CHR 0x0A, CHR 0x0B, CHR 0x0C, CHR 0x0D, CHR 0x1C, CHR 0x1D, CHR 0x1E,
               CHR 0x1F, CHR 0x20])"

definition str_strip :: "string \<Rightarrow> string" where
  "str_strip s = rev (dropWhile isspace (rev (dropWhile isspace s)))"

text \<open>
  \<open>s.split(sep)\<close> for a non-empty separator: a scan from the left with non-overlapping
  matches. \<open>split_scan sep cur k s\<close> carries the piece read so far (reversed) and the
  number \<open>k\<close> of characters of a matched separator still to be skipped. (Python raises
  \<open>ValueError\<close> for an empty separator; both separators of the source are non-empty
  literals.)
\<close>

fun split_scan :: "string \<Rightarrow> string \<Rightarrow> nat \<Rightarrow> string \<Rightarrow> string list" where
  "split_scan sep cur k [] = [rev cur]"
| "split_scan sep cur (Suc k) (c # cs) = split_scan sep cur k cs"
| "split_scan sep cur 0 (c # cs) =
     (if startswith (c # cs) sep then rev cur # split_scan sep [] (length sep - 1) cs
      else split_scan sep (c # cur) 0 cs)"

definition str_split :: "string \<Rightarrow> string \<Rightarrow> string list" where
  "str_split s sep = split_scan sep [] 0 s"

text \<open>The text of \<open>s\<close> before the first occurrence of \<open>sep\<close>, all of \<open>s\<close> when there is
  none: what the first piece of a split turns out to be.\<close>

definition text_before :: "string \<Rightarrow> string \<Rightarrow> string" where
  "text_before sep s = (case find_index sep s of None \<Rightarrow> s | Some j \<Rightarrow> take j s)"

text \<open>\<open>sep.join(xs)\<close>.\<close>

fun str_join :: "string \<Rightarrow> string list \<Rightarrow> string" where
  "str_join sep [] = []"
| "str_join sep [x] = x"
| "str_join sep (x # y # ys) = x @ sep @ str_join sep (y # ys)"

section \<open>Exceptions\<close>

text \<open>An exception is its class and its message (\<open>str(e)\<close>). \<open>OSError\<close> is what an
  \<open>open\<close> that fails raises (\<open>FileNotFoundError\<close> is one of its subclasses), and
  \<open>OtherException\<close> stands for any class that none of the handlers of the source
  singles out, such as a provider SDK's API error.\<close>

datatype exn_class =
  AttributeError | ValueError | IndexError | OSError | JSONDecodeError | RecursionError
  | SchemaError | OtherException

datatype exn = Exn exn_class string

fun class_of :: "exn \<Rightarrow> exn_class" where
  "class_of (Exn c m) = c"

fun str_of :: "exn \<Rightarrow> string" where
  "str_of (Exn c m) = m"

text \<open>\<open>xs[i]\<close> for \<open>i \<ge> 0\<close>: an index past the end raises \<open>IndexError\<close>.\<close>

definition py_index :: "'a list \<Rightarrow> nat \<Rightarrow> exn + 'a" where
  "py_index xs i =
     (if i < length xs then Inr (xs ! i) else Inl (Exn IndexError ''list index out of range''))"

section \<open>Provider Selector: \<open>LLMProviderManager\<close>\<close>

text \<open>The process environment, as \<open>os.getenv\<close> reads it.\<close>

type_synonym environ = "string \<rightharpoonup> string"

definition SUPPORTED_PROVIDERS :: "string list" where
  "SUPPORTED_PROVIDERS = [''AzureOpenAI'', ''OpenAI'', ''Anthropic'', ''Google'', ''Groq'']"

definition get_provider :: "environ \<Rightarrow> string" where
  "get_provider env =
     (let provider = (case env ''LLM_PROVIDER'' of None \<Rightarrow> ''AzureOpenAI'' | Some v \<Rightarrow> v) in
      if provider \<notin> set SUPPORTED_PROVIDERS then ''AzureOpenAI'' else provider)"

definition valid_models :: "(string \<times> string list) list" where
  "valid_models =
     [(''AzureOpenAI'', [''gpt-4o'', ''gpt-4o-mini'', ''gpt-4-turbo'', ''gpt-4'', ''gpt-35-turbo'',
                         ''gpt-3.5-turbo'']),
      (''OpenAI'', [''gpt-4o'', ''gpt-4o-mini'', ''gpt-4-turbo'', ''gpt-4'', ''gpt-3.5-turbo'']),
      (''Anthropic'', [''claude-3-5-sonnet-20241022'', ''claude-3-opus-20240229'',
                       ''claude-3-sonnet-20240229'', ''claude-3-haiku-20240307'']),
      (''Google'', [''gemini-2.5-pro'', ''gemini-2.0-flash'', ''gemini-1.5-pro'',
                    ''gemini-1.5-flash'', ''gemini-pro'', ''gemini-1.0-pro'']),
      (''Groq'', [''llama-3.3-70b-versatile'', ''llama-3.1-70b-versatile'',
                  ''llama-3.1-8b-instant'', ''mixtral-8x7b-32768'', ''gemma2-9b-it''])]"

text \<open>The loop over the provider's models: the first match in either direction returns.\<close>

fun matches_any :: "string \<Rightarrow> string list \<Rightarrow> bool" where
  "matches_any model [] = False"
| "matches_any model (valid_model # rest) =
     (if str_in valid_model model \<or> str_in model valid_model then True
      else matches_any model rest)"

definition validate_model_for_provider :: "string \<Rightarrow> string \<Rightarrow> bool \<times> string" where
  "validate_model_for_provider model provider =
     (let provider_models = (case map_of valid_models provider of None \<Rightarrow> [] | Some ms \<Rightarrow> ms) in
      if provider_models = [] then (True, [])
      else if matches_any model provider_models then (True, [])
      else (False,
        ''Model '' @ [CHR 0x27] @ model @ [CHR 0x27] @ '' may not be compatible with provider ''
        @ [CHR 0x27] @ provider @ [CHR 0x27] @ ''. Common models for '' @ provider @ '': ''
        @ str_join '', '' (slice_to provider_models 3)))"

definition defaults :: "(string \<times> string) list" where
  "defaults =
     [(''AzureOpenAI'', ''gpt-4o-mini''),
      (''OpenAI'', ''gpt-4o-mini''),
      (''Anthropic'', ''claude-3-5-sonnet-20241022''),
      (''Google'', ''gemini-1.5-pro''),
      (''Groq'', ''llama-3.3-70b-versatile'')]"

definition get_default_model :: "environ \<Rightarrow> string" where
  "get_default_model env =
     (let provider = get_provider env;
          model = env ''MODEL'';
          default_model = (case map_of defaults provider of None \<Rightarrow> ''gpt-4o-mini'' | Some d \<Rightarrow> d)
      in case model of
           None \<Rightarrow> default_model
         | Some m \<Rightarrow>
             if m = [] then default_model
             else if \<not> fst (validate_model_for_provider m provider) then default_model
             else m)"

section \<open>Schema Validator: \<open>validate_devcontainer_json\<close>\<close>

text \<open>
  What \<open>jsonschema\<close> reports in a \<open>ValidationError\<close>; each field holds the text that the
  log line interpolates (\<open>e.message\<close>, \<open>list(e.path)\<close>, \<open>list(e.schema_path)\<close>,
  \<open>e.validator\<close>).
\<close>

record validation_error =
  ve_message :: string
  ve_path :: string
  ve_schema_path :: string
  ve_validator :: string

datatype log_level = DEBUG | INFO | WARNING | ERROR

type_synonym log_record = "log_level \<times> string"

text \<open>
  The surroundings of a run: the process environment, the schema file
  \<open>schemas/devContainer.base.schema.json\<close> (repository data that is not among the
  sources; \<open>Inl\<close> is the error of an \<open>open\<close> that fails, \<open>Inr\<close> the file's text), the
  libraries \<open>json\<close> and \<open>jsonschema\<close> over a type \<open>'j\<close> of parsed JSON values, the
  tokenizer, and the prompt template renderer \<open>process_template\<close> of
  \<open>helpers/jinja_helper\<close>, which is not among the sources either.

  \<^item> \<open>json_loads\<close>: \<open>Inl\<close> is the exception raised. A text that is not JSON raises
    \<open>JSONDecodeError\<close>; the parser can also raise other classes, such as
    \<open>RecursionError\<close> on a text nested too deeply and a plain \<open>ValueError\<close> on an integer
    literal with too many digits.
  \<^item> \<open>validate_raises\<close> and \<open>best_match\<close> are \<open>jsonschema.validate\<close>:
    \<open>validate_raises\<close> is the exception other than \<open>ValidationError\<close> that the call
    raises, if it raises one (\<open>SchemaError\<close> for a schema that is itself invalid), and
    otherwise the best matching error of the instance, if there is one, is raised as
    a \<open>ValidationError\<close>.
  \<^item> \<open>keys_repr\<close> is the text of \<open>list(parsed.keys())\<close>, \<open>None\<close> when the parsed value is
    not an object and the call raises; \<open>image_repr\<close> is the text of \<open>parsed['image']\<close>
    when that key is present.
\<close>

record template_data =
  td_repo_url :: string
  td_repo_context :: string
  td_existing_devcontainer :: "string option"

record ('t, 'j) world =
  environ :: environ
  schema_file :: "string + string"
  json_loads :: "string \<Rightarrow> exn + 'j"
  validate_raises :: "'j \<Rightarrow> 'j \<Rightarrow> exn option"
  best_match :: "'j \<Rightarrow> 'j \<Rightarrow> validation_error option"
  keys_repr :: "'j \<Rightarrow> string option"
  image_repr :: "'j \<Rightarrow> string option"
  tokenizer :: "'t tokenizer"
  process_template :: "string \<Rightarrow> template_data \<Rightarrow> string"

text \<open>Lines 198 to 205: the extra log lines after a schema violation; the bare
  \<open>except\<close> swallows whatever the second parse or \<open>keys()\<close> raises.\<close>

definition log_generated_keys :: "('t, 'j) world \<Rightarrow> string \<Rightarrow> log_record list" where
  "log_generated_keys w devcontainer_json =
     (case json_loads w devcontainer_json of
        Inl e \<Rightarrow> []
      | Inr parsed \<Rightarrow>
          (case keys_repr w parsed of
             None \<Rightarrow> []
           | Some ks \<Rightarrow>
               (ERROR, ''Generated JSON keys: '' @ ks)
               # (case image_repr w parsed of
                    None \<Rightarrow> []
                  | Some v \<Rightarrow> [(ERROR, ''Image value: '' @ v)])))"

text \<open>
  The function returns a boolean or raises; the model also returns the lines it logs.
  Loading the schema (lines 179 to 181) happens before the \<open>try\<close>, so what it raises
  leaves the function. Inside the \<open>try\<close> the two handlers catch \<open>JSONDecodeError\<close> and
  \<open>ValidationError\<close>; an exception of any other class, from \<open>json.loads\<close> or from
  \<open>jsonschema.validate\<close>, leaves the function as well.
\<close>

definition validate_devcontainer_json ::
  "('t, 'j) world \<Rightarrow> string \<Rightarrow> (exn + bool) \<times> log_record list" where
  "validate_devcontainer_json w devcontainer_json =
     (let log0 = [(INFO, ''Validating devcontainer.json...'')] in
      case schema_file w of
        Inl err \<Rightarrow> (Inl (Exn OSError err), log0)
      | Inr schema_text \<Rightarrow>
          (case json_loads w schema_text of
             Inl err \<Rightarrow> (Inl err, log0)
           | Inr schema \<Rightarrow>
               (let log1 = log0 @ [(DEBUG, ''Running validation...'')] in
                case json_loads w devcontainer_json of
                  Inl e \<Rightarrow>
                    if class_of e = JSONDecodeError
                    then
                      (Inr False,
                       log1 @ [(ERROR, ''JSON parsing failed: '' @ str_of e),
                               (ERROR, ''Invalid JSON content: '' @ slice_to devcontainer_json 500)])
                    else (Inl e, log1)
                | Inr parsed_json \<Rightarrow>
                    (case validate_raises w parsed_json schema of
                       Some err \<Rightarrow> (Inl err, log1)
                     | None \<Rightarrow>
                         (case best_match w parsed_json schema of
                            None \<Rightarrow> (Inr True, log1 @ [(INFO, ''Validation successful.'')])
                          | Some e \<Rightarrow>
                              (Inr False,
                               log1 @ [(ERROR, ''Schema validation failed: '' @ ve_message e),
                                       (ERROR, ''Failed at path: '' @ ve_path e),
                                       (ERROR, ''Schema path: '' @ ve_schema_path e),
                                       (ERROR, ''Validator: '' @ ve_validator e)]
                               @ log_generated_keys w devcontainer_json))))))"

section \<open>Generation Orchestrator: \<open>generate_devcontainer_json\<close>\<close>

text \<open>
  One call of \<open>instructor_client.chat.completions.create\<close>: the keyword arguments it
  is given. \<open>req_temperature = None\<close> is a call without the \<open>temperature\<close> keyword.
\<close>

record request =
  req_model :: string
  req_response_model :: string
  req_temperature :: "rat option"
  req_max_retries :: nat
  req_messages :: "(string \<times> string) list"

text \<open>
  A call either returns a response object or raises. The orchestrator only looks at a
  response through \<open>json.dumps(response.dict(exclude_none=True), indent=2)\<close>, so a
  response is represented by that text.
\<close>

datatype call_result = Returned string | Raised exn

text \<open>
  The client is an object with state of its own: what a call does may depend on the
  calls made before. It is a function of the earlier requests (oldest first) and the
  present one.
\<close>

type_synonym client = "request list \<Rightarrow> request \<Rightarrow> call_result"

text \<open>How one pass through the body of the \<open>for\<close> loop ends: by \<open>return\<close>, by an exception
  that leaves the function, or by going on to the next value of \<open>attempt\<close>
  (\<open>continue\<close>, or an exception swallowed by the outer handler, or the end of the body).\<close>

datatype 'a flow = Return 'a | Raise exn | Next

definition EXISTING_START :: string where
  "EXISTING_START = ''<<EXISTING_DEVCONTAINER>>''"

definition EXISTING_END :: string where
  "EXISTING_END = ''<<END_EXISTING_DEVCONTAINER>>''"

definition SYSTEM_CONTENT :: string where
  "SYSTEM_CONTENT = ''You are a helpful assistant that generates valid, complete devcontainer.json files. Ensure all JSON is properly closed with matching braces.''"

definition TOOL_FAILURE_MESSAGE :: string where
  "TOOL_FAILURE_MESSAGE = ''The LLM provider failed to generate valid structured output after multiple attempts. This is a known limitation with some providers (especially Groq with complex schemas). Recommendation: Switch to OpenAI or Anthropic for better reliability. Run: ./switch_to_openai.sh''"

definition VALIDATION_FAILURE_MESSAGE :: string where
  "VALIDATION_FAILURE_MESSAGE = ''Failed to generate valid devcontainer.json after maximum retries. Check logs for validation errors. This may be due to the LLM provider'' @ [CHR 0x27] @ ''s capabilities with structured outputs.''"

definition EXHAUSTED_MESSAGE :: string where
  "EXHAUSTED_MESSAGE = ''Failed to generate valid devcontainer.json after maximum retries''"

text \<open>Lines 68 to 72: the text between the markers. Indexing the pieces of a split can
  raise \<open>IndexError\<close>.\<close>

definition extract_existing :: "string \<Rightarrow> exn + string" where
  "extract_existing repo_context =
     (case py_index (str_split repo_context EXISTING_START) 1 of
        Inl e \<Rightarrow> Inl e
      | Inr rest \<Rightarrow>
          (case py_index (str_split rest EXISTING_END) 0 of
             Inl e \<Rightarrow> Inl e
           | Inr body \<Rightarrow> Inr (str_strip body)))"

text \<open>Truth values of Python: \<open>None\<close> and the empty string are false.\<close>

definition truthy :: "string option \<Rightarrow> bool" where
  "truthy v = (case v of None \<Rightarrow> False | Some s \<Rightarrow> s \<noteq> [])"

text \<open>Line 93: \<open>os.getenv("MODEL") or LLMProviderManager.get_default_model()\<close>.\<close>

definition model_for_call :: "environ \<Rightarrow> string" where
  "model_for_call env =
     (case env ''MODEL'' of
        None \<Rightarrow> get_default_model env
      | Some m \<Rightarrow> if m \<noteq> [] then m else get_default_model env)"

text \<open>Lines 170 to 173, the handler of the outer \<open>try\<close>: the exception is logged and,
  unless this was the last attempt, swallowed.\<close>

definition outer_except :: "int \<Rightarrow> int \<Rightarrow> exn \<Rightarrow> 'a flow" where
  "outer_except attempt max_retries e = (if attempt = max_retries then Raise e else Next)"

text \<open>Lines 148 to 169: the response is validated and accepted or not.\<close>

definition accept_or_retry ::
  "('t, 'j) world \<Rightarrow> string option \<Rightarrow> string option \<Rightarrow> bool \<Rightarrow> int \<Rightarrow> int \<Rightarrow> string
     \<Rightarrow> (string \<times> string option) flow" where
  "accept_or_retry w existing devcontainer_url regenerate max_retries attempt devcontainer_json =
     (case fst (validate_devcontainer_json w devcontainer_json) of
        Inl e \<Rightarrow> outer_except attempt max_retries e
      | Inr True \<Rightarrow>
          (case existing of
             None \<Rightarrow> Return (devcontainer_json, None)
           | Some existing_devcontainer \<Rightarrow>
               if existing_devcontainer \<noteq> [] \<and> \<not> regenerate
               then Return (existing_devcontainer, devcontainer_url)
               else Return (devcontainer_json, None))
      | Inr False \<Rightarrow>
          (if attempt = max_retries
           then outer_except attempt max_retries (Exn ValueError VALIDATION_FAILURE_MESSAGE)
           else Next))"

definition first_request :: "environ \<Rightarrow> string \<Rightarrow> request" where
  "first_request env prompt =
     \<lparr>req_model = model_for_call env,
      req_response_model = ''DevContainerModel'',
      req_temperature = Some (1 / 10),
      req_max_retries = 2,
      req_messages = [(''system'', SYSTEM_CONTENT), (''user'', prompt)]\<rparr>"

definition tool_failure :: "string \<Rightarrow> bool" where
  "tool_failure error_msg =
     (str_in ''tool_use_failed'' (str_lower error_msg)
      \<or> str_in ''failed to call a function'' (str_lower error_msg))"

definition temperature_unsupported :: "string \<Rightarrow> bool" where
  "temperature_unsupported error_msg =
     (str_in ''does not support'' (str_lower error_msg)
      \<or> str_in ''temperature'' (str_lower error_msg))"

text \<open>Lines 91 to 173: the body of the loop for one value of \<open>attempt\<close>, from the calls
  made so far to the calls made after it.\<close>

definition run_attempt ::
  "('t, 'j) world \<Rightarrow> client \<Rightarrow> string \<Rightarrow> string option \<Rightarrow> string option \<Rightarrow> bool \<Rightarrow> int
     \<Rightarrow> int \<Rightarrow> request list \<Rightarrow> (string \<times> string option) flow \<times> request list" where
  "run_attempt w cl prompt existing devcontainer_url regenerate max_retries attempt calls =
     (let req = first_request (environ w) prompt;
          provider = get_provider (environ w)
      in case cl calls req of
           Returned devcontainer_json \<Rightarrow>
             (accept_or_retry w existing devcontainer_url regenerate max_retries attempt
                devcontainer_json,
              calls @ [req])
         | Raised api_error \<Rightarrow>
             if class_of api_error = AttributeError
             then (outer_except attempt max_retries api_error, calls @ [req])
             else
               let error_msg = str_of api_error in
               if tool_failure error_msg
               then
                 (if attempt < max_retries then (Next, calls @ [req])
                  else (outer_except attempt max_retries (Exn ValueError TOOL_FAILURE_MESSAGE),
                        calls @ [req]))
               else if temperature_unsupported error_msg
               then
                 (let req2 = req\<lparr>req_temperature := None\<rparr> in
                  case cl (calls @ [req]) req2 of
                    Returned devcontainer_json \<Rightarrow>
                      (accept_or_retry w existing devcontainer_url regenerate max_retries attempt
                         devcontainer_json,
                       calls @ [req, req2])
                  | Raised e2 \<Rightarrow> (outer_except attempt max_retries e2, calls @ [req, req2]))
               else (outer_except attempt max_retries api_error, calls @ [req]))"

text \<open>The \<open>for\<close> loop over the values of \<open>range(max_retries + 1)\<close>; when the range is used
  up the statement after the loop (line 175) raises.\<close>

fun for_attempts ::
  "(int \<Rightarrow> request list \<Rightarrow> (string \<times> string option) flow \<times> request list) \<Rightarrow> int list
     \<Rightarrow> request list \<Rightarrow> (exn + string \<times> string option) \<times> request list" where
  "for_attempts body [] calls = (Inl (Exn ValueError EXHAUSTED_MESSAGE), calls)"
| "for_attempts body (attempt # rest) calls =
     (case body attempt calls of
        (Return v, calls') \<Rightarrow> (Inr v, calls')
      | (Raise e, calls') \<Rightarrow> (Inl e, calls')
      | (Next, calls') \<Rightarrow> for_attempts body rest calls')"

text \<open>\<open>range(n)\<close> for a Python int \<open>n\<close>: the integers from 0 up to \<open>n - 1\<close>, none when
  \<open>n \<le> 0\<close>.\<close>

definition py_range :: "int \<Rightarrow> int list" where
  "py_range n = [0..n - 1]"

text \<open>Lines 77 to 175, once the check for an existing artifact has not returned: the
  context is truncated and the prompt rendered (lines 80 to 88), then the loop runs.\<close>

definition build_prompt ::
  "('t, 'j) world \<Rightarrow> string \<Rightarrow> string \<Rightarrow> string option \<Rightarrow> string" where
  "build_prompt w repo_url repo_context existing =
     (let truncated_context = truncate_context (tokenizer w) repo_context 126000;
          template_data =
            \<lparr>td_repo_url = repo_url, td_repo_context = truncated_context,
             td_existing_devcontainer = existing\<rparr>
      in process_template w ''prompts/devcontainer.jinja'' template_data)"

definition generate_fresh ::
  "('t, 'j) world \<Rightarrow> client \<Rightarrow> string \<Rightarrow> string \<Rightarrow> string option \<Rightarrow> string option \<Rightarrow> int
     \<Rightarrow> bool \<Rightarrow> (exn + string \<times> string option) \<times> request list" where
  "generate_fresh w instructor_client repo_url repo_context existing devcontainer_url
       max_retries regenerate =
     (let prompt = build_prompt w repo_url repo_context existing
      in for_attempts
           (run_attempt w instructor_client prompt existing devcontainer_url regenerate
              max_retries)
           (py_range (max_retries + 1)) [])"

text \<open>
  The function returns a pair of the artifact text and a URL (or \<open>None\<close>), or raises.
  The model also returns the list of calls made to the client, in order.
\<close>

definition generate_devcontainer_json ::
  "('t, 'j) world \<Rightarrow> client \<Rightarrow> string \<Rightarrow> string \<Rightarrow> string option \<Rightarrow> int \<Rightarrow> bool
     \<Rightarrow> (exn + string \<times> string option) \<times> request list" where
  "generate_devcontainer_json w instructor_client repo_url repo_context devcontainer_url
       max_retries regenerate =
     (if str_in EXISTING_START repo_context
      then
        (case extract_existing repo_context of
           Inl e \<Rightarrow> (Inl e, [])
         | Inr existing_devcontainer \<Rightarrow>
             if \<not> regenerate \<and> truthy devcontainer_url
             then (Inr (existing_devcontainer, devcontainer_url), [])
             else generate_fresh w instructor_client repo_url repo_context
                    (Some existing_devcontainer) devcontainer_url max_retries regenerate)
      else generate_fresh w instructor_client repo_url repo_context None devcontainer_url
             max_retries regenerate)"

section \<open>Stand-ins for running the definitions\<close>

text \<open>
  A small world and two clients, used where a theorem is run on a concrete input. The
  stand-in for \<open>json\<close> accepts a text that starts with a brace and keeps it as the parsed
  value, gives up with \<open>RecursionError\<close> on an array nested four deep, and rejects any
  other text; the stand-in for \<open>jsonschema\<close> reports a missing \<open>image\<close> property unless the
  word occurs in the instance. The template renderer puts the URL and the context on
  two lines.
\<close>

definition IMAGE_REQUIRED :: validation_error where
  "IMAGE_REQUIRED =
     \<lparr>ve_message = [CHR 0x27] @ ''image'' @ [CHR 0x27] @ '' is a required property'',
      ve_path = ''[]'',
      ve_schema_path = ''['' @ [CHR 0x27] @ ''required'' @ [CHR 0x27] @ '']'',
      ve_validator = ''required''\<rparr>"

definition demo_loads :: "string \<Rightarrow> exn + string" where
  "demo_loads s =
     (if startswith s ''{'' then Inr s
      else if startswith s ''[[[[''
      then Inl (Exn RecursionError ''maximum recursion depth exceeded while decoding a JSON array from a unicode string'')
      else Inl (Exn JSONDecodeError ''Expecting value: line 1 column 1 (char 0)''))"

definition demo_best_match :: "string \<Rightarrow> string \<Rightarrow> validation_error option" where
  "demo_best_match instance schema = (if str_in ''image'' instance then None else Some IMAGE_REQUIRED)"

definition demo_template :: "string \<Rightarrow> template_data \<Rightarrow> string" where
  "demo_template name d = td_repo_url d @ [NL] @ td_repo_context d"

definition demo_world :: "(char, string) world" where
  "demo_world =
     \<lparr>environ = [''LLM_PROVIDER'' \<mapsto> ''OpenAI''],
      schema_file = Inr ''{schema}'',
      json_loads = demo_loads,
      validate_raises = (\<lambda>instance schema. None),
      best_match = demo_best_match,
      keys_repr = (\<lambda>parsed. None),
      image_repr = (\<lambda>parsed. None),
      tokenizer = char_tokenizer,
      process_template = demo_template\<rparr>"

text \<open>A client whose every call returns the same object, and one whose every call
  raises the same exception.\<close>

definition always_returns :: "string \<Rightarrow> client" where
  "always_returns devcontainer_json = (\<lambda>earlier req. Returned devcontainer_json)"

definition always_raises :: "exn \<Rightarrow> client" where
  "always_raises e = (\<lambda>earlier req. Raised e)"

text \<open>A client that rejects the \<open>temperature\<close> keyword and answers a call without it.\<close>

definition rejects_temperature :: client where
  "rejects_temperature =
     (\<lambda>earlier req.
        case req_temperature req of
          Some t \<Rightarrow>
            Raised (Exn OtherException ''Unsupported parameter: temperature is not supported with this model.'')
        | None \<Rightarrow> Returned ''{name: x, image: y}'')"

text \<open>A context that embeds the artifact \<open>{a}\<close> between the two markers.\<close>

definition demo_context :: string where
  "demo_context = ''x'' @ EXISTING_START @ '' {a} '' @ EXISTING_END @ ''y''"

text \<open>The same world with the provider set to Anthropic and an OpenAI model as the
  override.\<close>

definition anthropic_world :: "(char, string) world" where
  "anthropic_world =
     demo_world\<lparr>environ := [''LLM_PROVIDER'' \<mapsto> ''Anthropic'', ''MODEL'' \<mapsto> ''gpt-4o-mini'']\<rparr>"

text \<open>The same world with the schema file missing.\<close>

definition world_without_schema :: "(char, string) world" where
  "world_without_schema =
     demo_world\<lparr>schema_file := Inl ''[Errno 2] No such file or directory: schemas/devContainer.base.schema.json''\<rparr>"

text \<open>
  A second tokenizer for running the definitions: greedy longest match from the left
  over a vocabulary of all single characters, the word \<open>abc\<close> and a line feed followed
  by \<open>a\<close>; tokens are the matched pieces and decoding concatenates them.
\<close>

fun merge_encode :: "string \<Rightarrow> string list" where
  "merge_encode (c # d # e # s) =
     (if [c, d, e] = ''abc'' then [c, d, e] # merge_encode s
      else if [c, d] = [NL, CHR ''a''] then [c, d] # merge_encode (e # s)
      else [c] # merge_encode (d # e # s))"
| "merge_encode [c, d] = (if [c, d] = [NL, CHR ''a''] then [[c, d]] else [[c], [d]])"
| "merge_encode [c] = [[c]]"
| "merge_encode [] = []"


section \<open>Facts about the string primitives\<close>

lemma find_index_Some:
  "find_index sub s = Some i \<Longrightarrow> take (length sub) (drop i s) = sub \<and> i + length sub \<le> length s"
proof (induction s arbitrary: i)
  case Nil then show ?case by (auto split: if_splits)
next
  case (Cons c cs)
  show ?case
  proof (cases "startswith (c # cs) sub")
    case True
    with Cons.prems have "i = 0" by simp
    from True have e: "take (length sub) (c # cs) = sub" by (simp add: startswith_def)
    have "length (take (length sub) (c # cs)) = length sub" by (simp only: e)
    then have "length sub \<le> length (c # cs)" by (simp add: min_def split: if_splits)
    with e \<open>i = 0\<close> show ?thesis by simp
  next
    case False
    with Cons.prems obtain j where j: "find_index sub cs = Some j" "i = Suc j" by auto
    from Cons.IH[OF j(1)] j(2) show ?thesis by simp
  qed
qed


lemma find_index_agree:
  "find_index sub s = Some i \<Longrightarrow> take (i + length sub) s' = take (i + length sub) s
     \<Longrightarrow> find_index sub s' = Some i"
proof (induction s arbitrary: i s')
  case Nil
  then have "sub = []" "i = 0" by (auto split: if_splits)
  then show ?case by (cases s') (simp_all add: startswith_def)
next
  case (Cons c cs)
  show ?case
  proof (cases "startswith (c # cs) sub")
    case True
    with Cons.prems(1) have i: "i = 0" by simp
    from True have "take (length sub) (c # cs) = sub" by (simp add: startswith_def)
    with Cons.prems(2) i have st: "startswith s' sub" by (simp add: startswith_def)
    show ?thesis
    proof (cases s')
      case Nil
      with st have "sub = []" by (simp add: startswith_def)
      with Nil i show ?thesis by simp
    next
      case (Cons d ds)
      with st i show ?thesis by simp
    qed
  next
    case False
    with Cons.prems(1) obtain j where j: "find_index sub cs = Some j" "i = Suc j" by auto
    from Cons.prems(2) j(2) obtain cs' where s': "s' = c # cs'"
      and eq: "take (j + length sub) cs' = take (j + length sub) cs"
      by (cases s') auto
    have tt: "take (length sub) xs = take (length sub) (take (Suc j + length sub) xs)"
      for xs :: string by (simp add: min_def)
    have "take (length sub) (c # cs') = take (length sub) (take (Suc j + length sub) (c # cs'))"
      by (rule tt)
    also have "\<dots> = take (length sub) (take (Suc j + length sub) (c # cs))"
      using eq by simp
    also have "\<dots> = take (length sub) (c # cs)" by (rule tt [symmetric])
    finally have "\<not> startswith (c # cs') sub" using False by (simp add: startswith_def)
    moreover from Cons.IH[OF j(1) eq] have "find_index sub cs' = Some j" .
    ultimately show ?thesis using s' j(2) by simp
  qed
qed


lemma split_scan_nonempty: "split_scan sep cur k s \<noteq> []"
  by (induction sep cur k s rule: split_scan.induct) auto

lemma split_scan_skip: "k \<le> length s \<Longrightarrow> split_scan sep cur k s = split_scan sep cur 0 (drop k s)"
proof (induction s arbitrary: k)
  case Nil then show ?case by simp
next
  case (Cons c cs)
  then show ?case by (cases k) simp_all
qed

lemma split_scan_none: "find_index sep s = None \<Longrightarrow> split_scan sep cur 0 s = [rev cur @ s]"
proof (induction s arbitrary: cur)
  case Nil then show ?case by simp
next
  case (Cons c cs)
  then have "\<not> startswith (c # cs) sep" "find_index sep cs = None"
    by (auto split: if_splits)
  with Cons.IH [of "c # cur"] show ?case by simp
qed

lemma split_scan_found:
  "find_index sep s = Some i \<Longrightarrow> sep \<noteq> [] \<Longrightarrow>
   split_scan sep cur 0 s = (rev cur @ take i s) # split_scan sep [] 0 (drop (i + length sep) s)"
proof (induction s arbitrary: cur i)
  case Nil then show ?case by (simp split: if_splits)
next
  case (Cons c cs)
  show ?case
  proof (cases "startswith (c # cs) sep")
    case True
    with Cons.prems(1) have i: "i = 0" by simp
    from find_index_Some [OF Cons.prems(1)] i have "length sep \<le> Suc (length cs)" by simp
    with Cons.prems(2) have le: "length sep - 1 \<le> length cs" by simp
    from Cons.prems(2) obtain n where n: "length sep = Suc n" by (cases sep) auto
    have "split_scan sep [] (length sep - 1) cs = split_scan sep [] 0 (drop (length sep - 1) cs)"
      by (rule split_scan_skip [OF le])
    with True i n show ?thesis by simp
  next
    case False
    with Cons.prems(1) obtain j where j: "find_index sep cs = Some j" "i = Suc j" by auto
    from False j Cons.IH [OF j(1) Cons.prems(2), of "c # cur"] show ?thesis by simp
  qed
qed

lemma hd_split_scan: "sep \<noteq> [] \<Longrightarrow> hd (split_scan sep [] 0 s) = text_before sep s"
  by (cases "find_index sep s") (simp_all add: text_before_def split_scan_none split_scan_found)

lemma extract_existing_found:
  assumes "find_index EXISTING_START ctx = Some i"
  shows "extract_existing ctx =
     Inr (str_strip (text_before EXISTING_END
        (text_before EXISTING_START (drop (i + length EXISTING_START) ctx))))"
proof -
  have ne: "EXISTING_START \<noteq> []" "EXISTING_END \<noteq> []"
    by (simp_all add: EXISTING_START_def EXISTING_END_def)
  let ?rest = "drop (i + length EXISTING_START) ctx"
  obtain p ps where ps: "split_scan EXISTING_START [] 0 ?rest = p # ps"
    using split_scan_nonempty [of EXISTING_START "[]" 0 ?rest] by (cases "split_scan EXISTING_START [] 0 ?rest") auto
  from hd_split_scan [OF ne(1), of ?rest] ps have p: "p = text_before EXISTING_START ?rest" by simp
  obtain q qs where qs: "split_scan EXISTING_END [] 0 p = q # qs"
    using split_scan_nonempty [of EXISTING_END "[]" 0 p] by (cases "split_scan EXISTING_END [] 0 p") auto
  from hd_split_scan [OF ne(2), of p] qs have q: "q = text_before EXISTING_END p" by simp
  have "str_split ctx EXISTING_START = take i ctx # p # ps"
    using split_scan_found [OF assms ne(1), of "[]"] ps by (simp add: str_split_def)
  then show ?thesis
    using qs p q by (simp add: extract_existing_def py_index_def str_split_def)
qed

lemma extract_existing_total:
  "str_in EXISTING_START ctx \<Longrightarrow> \<exists>existing. extract_existing ctx = Inr existing"
  using extract_existing_found by (auto simp: str_in_def)

lemma extract_existing_between:
  assumes ctx: "ctx = pre @ EXISTING_START @ body @ EXISTING_END @ post"
    and first_start: "find_index EXISTING_START ctx = Some (length pre)"
    and first_end: "find_index EXISTING_END (body @ EXISTING_END @ post) = Some (length body)"
    and later_start: "\<forall>j. find_index EXISTING_START (body @ EXISTING_END @ post) = Some j
                       \<longrightarrow> length body + length EXISTING_END \<le> j"
  shows "extract_existing ctx = Inr (str_strip body)"
proof -
  let ?rest = "body @ EXISTING_END @ post"
  have rest: "drop (length pre + length EXISTING_START) ctx = ?rest" by (simp add: ctx)
  let ?p = "text_before EXISTING_START ?rest"
  have agree: "take (length body + length EXISTING_END) ?p = take (length body + length EXISTING_END) ?rest"
  proof (cases "find_index EXISTING_START ?rest")
    case None then show ?thesis by (simp add: text_before_def)
  next
    case (Some j)
    with later_start have "length body + length EXISTING_END \<le> j" by blast
    with Some show ?thesis by (simp add: text_before_def min_def)
  qed
  from find_index_agree [OF first_end agree] have "find_index EXISTING_END ?p = Some (length body)" .
  then have "text_before EXISTING_END ?p = take (length body) ?p" by (simp add: text_before_def)
  also have "\<dots> = take (length body) (take (length body + length EXISTING_END) ?p)" by (simp add: min_def)
  also have "\<dots> = body" unfolding agree by simp
  finally show ?thesis using extract_existing_found [OF first_start] rest by simp
qed

lemma merge_encode_lossless: "concat (merge_encode s) = s"
  by (induction s rule: merge_encode.induct) auto

section \<open>The Token Budgeter\<close>

text \<open>
  Claim C3. For every context \<open>C\<close> and budget \<open>B\<close> such that the token count of \<open>C\<close> is
  at most \<open>B\<close>, \<open>truncate_context C B\<close> returns \<open>C\<close> itself, whatever the tokenizer.
\<close>

theorem truncate_context_identity:
  assumes "int (length (encode tk C)) \<le> B"
  shows "truncate_context tk C B = C"
  using assms by (simp add: truncate_context_def)

theorem truncate_context_identity_witness:
  "int (length (encode char_tokenizer ''abc'')) \<le> 5
   \<and> truncate_context char_tokenizer ''abc'' 5 = ''abc''"
  using truncate_context_identity [of char_tokenizer "''abc''" 5]
  by (simp add: char_tokenizer_def)







text \<open>
  Claim C5. For an over-budget context in which the Repository Languages delimiter does
  not occur, \<open>truncate_context\<close> returns a result: \<open>find\<close> gives \<open>-1\<close>, the slices count
  from the end instead of failing, and the important content degrades to the context
  without its last character followed by the delimiter and a blank line, while the
  remaining content is the context from position 39 on. No step of the function raises.
\<close>

theorem truncate_context_without_delimiter:
  assumes "\<not> str_in LANGUAGES_END C" and "B < int (length (encode tk C))"
  shows "truncate_context tk C B =
     (let important_content = butlast C @ LANGUAGES_END @ [NL, NL];
          remaining_content = drop 39 C;
          important_tokens = encode tk important_content
      in if B < int (length important_tokens) then decode tk (slice_to important_tokens B)
         else important_content
              @ decode tk (slice_to (encode tk remaining_content) (B - int (length important_tokens))))"
proof -
  from assms(1) have f: "str_find C LANGUAGES_END = - 1"
    by (simp add: str_in_def str_find_def)
  have a: "slice_to C (- 1) = butlast C"
    by (simp add: slice_to_def butlast_conv_take)
  have b: "slice_from C (- 1 + int (length (LANGUAGES_END @ [NL, NL]))) = drop 39 C"
    by (simp add: slice_from_def LANGUAGES_END_def)
  from assms(2) f a b show ?thesis
    by (simp add: truncate_context_def Let_def)
qed

theorem truncate_context_without_delimiter_witness:
  "\<not> str_in LANGUAGES_END ''abcdef''
   \<and> 3 < int (length (encode char_tokenizer ''abcdef''))
   \<and> truncate_context char_tokenizer ''abcdef'' 3 = ''abc''"
proof -
  have a: "\<not> str_in LANGUAGES_END ''abcdef''"
    by (simp add: str_in_def LANGUAGES_END_def startswith_def)
  have b: "3 < int (length (encode char_tokenizer ''abcdef''))"
    by (simp add: char_tokenizer_def)
  from truncate_context_without_delimiter [OF a b] a b show ?thesis
    by (simp add: char_tokenizer_def slice_to_def LANGUAGES_END_def)
qed

section \<open>The Provider Selector\<close>

text \<open>
  Claim C6. \<open>get_provider\<close> is total: whatever \<open>LLM_PROVIDER\<close> holds (unset, empty,
  unknown, wrongly cased), the result is one of the five supported providers; a
  supported value is returned as it is and anything else gives \<open>AzureOpenAI\<close>. The
  function has no raising step.
\<close>

theorem get_provider_total:
  "get_provider env \<in> set SUPPORTED_PROVIDERS
   \<and> (\<forall>v. env ''LLM_PROVIDER'' = Some v \<and> v \<in> set SUPPORTED_PROVIDERS \<longrightarrow> get_provider env = v)
   \<and> ((\<forall>v. env ''LLM_PROVIDER'' = Some v \<longrightarrow> v \<notin> set SUPPORTED_PROVIDERS)
        \<longrightarrow> get_provider env = ''AzureOpenAI'')"
  by (cases "env ''LLM_PROVIDER''") (auto simp: get_provider_def SUPPORTED_PROVIDERS_def)

theorem get_provider_total_witness:
  "get_provider Map.empty = ''AzureOpenAI''
   \<and> get_provider [''LLM_PROVIDER'' \<mapsto> ''''] = ''AzureOpenAI''
   \<and> get_provider [''LLM_PROVIDER'' \<mapsto> ''openai''] = ''AzureOpenAI''
   \<and> get_provider [''LLM_PROVIDER'' \<mapsto> ''Groq''] = ''Groq''
   \<and> get_provider [''LLM_PROVIDER'' \<mapsto> ''Groq''] \<in> set SUPPORTED_PROVIDERS"
  using get_provider_total [of Map.empty]
    get_provider_total [of "[''LLM_PROVIDER'' \<mapsto> '''']"]
    get_provider_total [of "[''LLM_PROVIDER'' \<mapsto> ''openai'']"]
    get_provider_total [of "[''LLM_PROVIDER'' \<mapsto> ''Groq'']"]
  by (simp add: SUPPORTED_PROVIDERS_def)

text \<open>
  The model of a call is computed on line 93 as
  \<open>os.getenv("MODEL") or LLMProviderManager.get_default_model()\<close>: a non-empty override
  is used as it is, and \<open>get_default_model\<close>, which does check the override against the
  provider's list, is only reached when there is none.
\<close>

lemma model_for_call_override:
  "env ''MODEL'' = Some m \<Longrightarrow> m \<noteq> [] \<Longrightarrow> model_for_call env = m"
  by (simp add: model_for_call_def)

lemma get_default_model_checks:
  "env ''MODEL'' = Some m \<Longrightarrow> m \<noteq> [] \<Longrightarrow>
   get_default_model env =
     (if fst (validate_model_for_provider m (get_provider env)) then m
      else (case map_of defaults (get_provider env) of None \<Rightarrow> ''gpt-4o-mini'' | Some d \<Rightarrow> d))"
  by (simp add: get_default_model_def Let_def)

section \<open>The Schema Validator\<close>

text \<open>
  Claim C8, as amended. Let the schema file be readable and parse as JSON. For an
  input text on which \<open>json.loads\<close> raises nothing but \<open>JSONDecodeError\<close> and
  \<open>jsonschema.validate\<close> raises nothing but \<open>ValidationError\<close>, the function does not
  raise: it returns the boolean \<open>False\<close> when the text does not parse as JSON, and logs
  the parse error at level \<open>ERROR\<close>; otherwise it returns whether the instance has no
  schema violation, and logs the violation's message. The diagnostic is in the log, not
  in the returned value. An exception of any other class from either library call
  leaves the function.
\<close>

theorem validate_devcontainer_json_result:
  assumes "schema_file w = Inr schema_text"
    and "json_loads w schema_text = Inr schema"
  shows "((\<forall>e. json_loads w devcontainer_json = Inl e \<longrightarrow> class_of e = JSONDecodeError)
          \<and> (\<forall>parsed. json_loads w devcontainer_json = Inr parsed
                 \<longrightarrow> validate_raises w parsed schema = None)
          \<longrightarrow> (\<exists>b. fst (validate_devcontainer_json w devcontainer_json) = Inr b))
       \<and> (\<forall>e. json_loads w devcontainer_json = Inl e \<and> class_of e = JSONDecodeError \<longrightarrow>
            fst (validate_devcontainer_json w devcontainer_json) = Inr False
            \<and> (ERROR, ''JSON parsing failed: '' @ str_of e)
                \<in> set (snd (validate_devcontainer_json w devcontainer_json)))
       \<and> (\<forall>parsed. json_loads w devcontainer_json = Inr parsed
                   \<and> validate_raises w parsed schema = None \<longrightarrow>
            fst (validate_devcontainer_json w devcontainer_json)
              = Inr (best_match w parsed schema = None)
            \<and> (\<forall>e. best_match w parsed schema = Some e \<longrightarrow>
                 (ERROR, ''Schema validation failed: '' @ ve_message e)
                   \<in> set (snd (validate_devcontainer_json w devcontainer_json))))
       \<and> (\<forall>e. json_loads w devcontainer_json = Inl e \<and> class_of e \<noteq> JSONDecodeError \<longrightarrow>
            fst (validate_devcontainer_json w devcontainer_json) = Inl e)
       \<and> (\<forall>parsed e. json_loads w devcontainer_json = Inr parsed
                   \<and> validate_raises w parsed schema = Some e \<longrightarrow>
            fst (validate_devcontainer_json w devcontainer_json) = Inl e)"
  using assms
  by (auto simp: validate_devcontainer_json_def Let_def split: option.splits sum.splits)


lemma demo_validate_ok:
  "fst (validate_devcontainer_json demo_world ''{name: x, image: y}'') = Inr True"
  by (simp add: validate_devcontainer_json_def demo_world_def demo_loads_def demo_best_match_def
      startswith_def str_in_def)

lemma demo_validate_malformed:
  "validate_devcontainer_json demo_world ''name'' =
     (Inr False,
      [(INFO, ''Validating devcontainer.json...''), (DEBUG, ''Running validation...''),
       (ERROR, ''JSON parsing failed: Expecting value: line 1 column 1 (char 0)''),
       (ERROR, ''Invalid JSON content: name'')])"
  by (simp add: validate_devcontainer_json_def demo_world_def demo_loads_def startswith_def
      slice_to_def)

theorem validate_devcontainer_json_result_witness:
  "schema_file demo_world = Inr ''{schema}''
   \<and> json_loads demo_world ''{schema}'' = Inr ''{schema}''
   \<and> json_loads demo_world ''name''
       = Inl (Exn JSONDecodeError ''Expecting value: line 1 column 1 (char 0)'')
   \<and> fst (validate_devcontainer_json demo_world ''name'') = Inr False
   \<and> (ERROR, ''JSON parsing failed: Expecting value: line 1 column 1 (char 0)'')
        \<in> set (snd (validate_devcontainer_json demo_world ''name''))
   \<and> json_loads demo_world ''{name: x}'' = Inr ''{name: x}''
   \<and> validate_raises demo_world ''{name: x}'' ''{schema}'' = None
   \<and> fst (validate_devcontainer_json demo_world ''{name: x}'') = Inr False
   \<and> json_loads demo_world ''{name: x, image: y}'' = Inr ''{name: x, image: y}''
   \<and> validate_raises demo_world ''{name: x, image: y}'' ''{schema}'' = None
   \<and> fst (validate_devcontainer_json demo_world ''{name: x, image: y}'') = Inr True"
proof -
  have a: "schema_file demo_world = Inr ''{schema}''" by (simp add: demo_world_def)
  have b: "json_loads demo_world ''{schema}'' = Inr ''{schema}''"
    by (simp add: demo_world_def demo_loads_def startswith_def)
  have l1: "json_loads demo_world ''name''
              = Inl (Exn JSONDecodeError ''Expecting value: line 1 column 1 (char 0)'')"
    by (simp add: demo_world_def demo_loads_def startswith_def)
  have l2: "json_loads demo_world ''{name: x}'' = Inr ''{name: x}''"
    by (simp add: demo_world_def demo_loads_def startswith_def)
  have l3: "json_loads demo_world ''{name: x, image: y}'' = Inr ''{name: x, image: y}''"
    by (simp add: demo_world_def demo_loads_def startswith_def)
  have v: "validate_raises demo_world i s = None" for i s by (simp add: demo_world_def)
  have m2: "best_match demo_world ''{name: x}'' ''{schema}'' \<noteq> None"
    by (simp add: demo_world_def demo_best_match_def str_in_def startswith_def)
  have m3: "best_match demo_world ''{name: x, image: y}'' ''{schema}'' = None"
    by (simp add: demo_world_def demo_best_match_def str_in_def startswith_def)
  from validate_devcontainer_json_result [OF a b, of "''name''"] l1
  have r1: "fst (validate_devcontainer_json demo_world ''name'') = Inr False
     \<and> (ERROR, ''JSON parsing failed: Expecting value: line 1 column 1 (char 0)'')
        \<in> set (snd (validate_devcontainer_json demo_world ''name''))"
    by simp
  from validate_devcontainer_json_result [OF a b, of "''{name: x}''"] l2 v m2
  have r2: "fst (validate_devcontainer_json demo_world ''{name: x}'') = Inr False" by simp
  from validate_devcontainer_json_result [OF a b, of "''{name: x, image: y}''"] l3 v m3
  have r3: "fst (validate_devcontainer_json demo_world ''{name: x, image: y}'') = Inr True" by simp
  from a b l1 l2 l3 v r1 r2 r3 show ?thesis by simp
qed

text \<open>
  Claim C8 as stated fails, in two ways. The schema is loaded before the \<open>try\<close>, so when
  the file cannot be opened the function raises. And the handlers catch only
  \<open>JSONDecodeError\<close> and \<open>ValidationError\<close>: when \<open>json.loads\<close> gives up on the input text
  with another exception, here \<open>RecursionError\<close> on nested arrays, that exception leaves
  the function although the schema is in place.
\<close>

theorem validate_devcontainer_json_raises_counterexample:
  "fst (validate_devcontainer_json world_without_schema ''{name: x, image: y}'')
     = Inl (Exn OSError
         ''[Errno 2] No such file or directory: schemas/devContainer.base.schema.json'')
   \<and> schema_file demo_world = Inr ''{schema}''
   \<and> json_loads demo_world ''{schema}'' = Inr ''{schema}''
   \<and> fst (validate_devcontainer_json demo_world ''[[[['')
     = Inl (Exn RecursionError
         ''maximum recursion depth exceeded while decoding a JSON array from a unicode string'')"
  by (simp add: validate_devcontainer_json_def world_without_schema_def demo_world_def
      demo_loads_def startswith_def)

section \<open>The Generation Orchestrator\<close>










lemma generate_short_circuit:
  assumes "str_in EXISTING_START ctx" and "\<not> regenerate" and "truthy url"
    and "extract_existing ctx = Inr existing"
  shows "generate_devcontainer_json w cl repo_url ctx url max_retries regenerate
           = (Inr (existing, url), [])"
  using assms by (simp add: generate_devcontainer_json_def)

text \<open>
  Claim C2, as amended. For every context in which the marker
  \<open><<EXISTING_DEVCONTAINER>>\<close> occurs, when \<open>regenerate\<close> is false and the URL supplied is
  a non-empty string, the function returns the extracted artifact text together with
  that URL, and calls the client not once. When the context is laid out as
  \<open>pre <<EXISTING_DEVCONTAINER>> body <<END_EXISTING_DEVCONTAINER>> post\<close>, with these the
  first start marker and the first end marker after it, the extracted text is \<open>body\<close>
  stripped of surrounding whitespace and otherwise unchanged.
\<close>

theorem existing_artifact_short_circuit:
  assumes "str_in EXISTING_START ctx" and "\<not> regenerate" and "u \<noteq> []"
  shows "\<exists>existing.
           extract_existing ctx = Inr existing
         \<and> generate_devcontainer_json w cl repo_url ctx (Some u) max_retries regenerate
             = (Inr (existing, Some u), [])
         \<and> (\<forall>pre body post.
               ctx = pre @ EXISTING_START @ body @ EXISTING_END @ post
               \<and> find_index EXISTING_START ctx = Some (length pre)
               \<and> find_index EXISTING_END (body @ EXISTING_END @ post) = Some (length body)
               \<and> (\<forall>j. find_index EXISTING_START (body @ EXISTING_END @ post) = Some j
                       \<longrightarrow> length body + length EXISTING_END \<le> j)
               \<longrightarrow> existing = str_strip body)"
proof -
  from extract_existing_total [OF assms(1)] obtain existing
    where e: "extract_existing ctx = Inr existing" by blast
  have t: "truthy (Some u)" using assms(3) by (simp add: truthy_def)
  have "existing = str_strip body"
    if "ctx = pre @ EXISTING_START @ body @ EXISTING_END @ post"
      and "find_index EXISTING_START ctx = Some (length pre)"
      and "find_index EXISTING_END (body @ EXISTING_END @ post) = Some (length body)"
      and "\<forall>j. find_index EXISTING_START (body @ EXISTING_END @ post) = Some j
                       \<longrightarrow> length body + length EXISTING_END \<le> j"
    for pre body post
    using extract_existing_between [OF that] e by simp
  with e generate_short_circuit [OF assms(1,2) t e] show ?thesis by blast
qed

lemma demo_context_start: "find_index EXISTING_START demo_context = Some 1"
  by (simp add: demo_context_def EXISTING_START_def EXISTING_END_def startswith_def)

lemma demo_context_extract: "extract_existing demo_context = Inr ''{a}''"
proof -
  have a: "demo_context = ''x'' @ EXISTING_START @ '' {a} '' @ EXISTING_END @ ''y''"
    by (simp add: demo_context_def)
  have b: "find_index EXISTING_START demo_context = Some (length ''x'')"
    by (simp add: demo_context_start)
  have c: "find_index EXISTING_END ('' {a} '' @ EXISTING_END @ ''y'') = Some (length '' {a} '')"
    by (simp add: EXISTING_END_def startswith_def)
  have d: "find_index EXISTING_START ('' {a} '' @ EXISTING_END @ ''y'') = None"
    by (simp add: EXISTING_START_def EXISTING_END_def startswith_def)
  have d': "\<forall>j. find_index EXISTING_START ('' {a} '' @ EXISTING_END @ ''y'') = Some j
                \<longrightarrow> length '' {a} '' + length EXISTING_END \<le> j"
    unfolding d by simp
  have "str_strip '' {a} '' = ''{a}''" by (simp add: str_strip_def isspace_def)
  with extract_existing_between [OF a b c d'] show ?thesis by simp
qed

theorem existing_artifact_short_circuit_witness:
  "str_in EXISTING_START demo_context
   \<and> generate_devcontainer_json demo_world (always_returns ''{name: x, image: y}'') ''repo''
        demo_context (Some ''https://example.org/devcontainer.json'') 3 False
      = (Inr (''{a}'', Some ''https://example.org/devcontainer.json''), [])"
proof -
  have a: "str_in EXISTING_START demo_context"
    by (simp add: str_in_def demo_context_start)
  have b: "\<not> False" by simp
  have c: "''https://example.org/devcontainer.json'' \<noteq> []" by simp
  from existing_artifact_short_circuit [OF a b c, of demo_world
      "always_returns ''{name: x, image: y}''" "''repo''" 3]
  show ?thesis using a by (auto simp: demo_context_extract)
qed

lemma run_attempt_first_valid:
  assumes "cl calls (first_request (environ w) prompt) = Returned j"
    and "fst (validate_devcontainer_json w j) = Inr True"
  shows "run_attempt w cl prompt existing url regenerate max_retries attempt calls =
     (Return (case existing of
                None \<Rightarrow> (j, None)
              | Some e \<Rightarrow> if e \<noteq> [] \<and> \<not> regenerate then (e, url) else (j, None)),
      calls @ [first_request (environ w) prompt])"
  using assms by (simp add: run_attempt_def Let_def accept_or_retry_def split: option.splits)

lemma generate_fresh_first_valid:
  assumes "cl [] (first_request (environ w) (build_prompt w repo_url ctx existing)) = Returned j"
    and "fst (validate_devcontainer_json w j) = Inr True"
    and "0 \<le> m"
  shows "generate_fresh w cl repo_url ctx existing url m regenerate =
     (Inr (case existing of
             None \<Rightarrow> (j, None)
           | Some e \<Rightarrow> if e \<noteq> [] \<and> \<not> regenerate then (e, url) else (j, None)),
      [first_request (environ w) (build_prompt w repo_url ctx existing)])"
proof -
  have up: "py_range (m + 1) = 0 # [1..m]" using assms(3) by (simp add: py_range_def upto_rec1)
  show ?thesis
    unfolding generate_fresh_def Let_def up
    using run_attempt_first_valid
      [of cl "[]" w "build_prompt w repo_url ctx existing" j, OF assms(1,2)]
    by simp
qed

lemma generate_proceeds:
  assumes "str_in EXISTING_START ctx" and "extract_existing ctx = Inr existing"
    and "\<not> (\<not> regenerate \<and> truthy url)"
  shows "generate_devcontainer_json w cl repo_url ctx url m regenerate =
           generate_fresh w cl repo_url ctx (Some existing) url m regenerate"
  using assms by (auto simp: generate_devcontainer_json_def)

text \<open>
  Claim C2 as stated fails for a URL that is not \<open>None\<close> but empty: line 73 tests the
  truth value of \<open>devcontainer_url\<close>, the empty string is false, and the client is
  called. (The existing artifact is still what is returned, after a generated one has
  passed validation.)
\<close>

theorem short_circuit_empty_url_counterexample:
  "str_in EXISTING_START demo_context
   \<and> Some [] \<noteq> (None :: string option)
   \<and> snd (generate_devcontainer_json demo_world (always_returns ''{name: x, image: y}'') ''repo''
        demo_context (Some []) 3 False)
      = [first_request (environ demo_world)
           (build_prompt demo_world ''repo'' demo_context (Some ''{a}''))]"
proof -
  have a: "str_in EXISTING_START demo_context"
    by (simp add: str_in_def demo_context_start)
  have t: "\<not> (\<not> False \<and> truthy (Some []))" by (simp add: truthy_def)
  have r: "always_returns ''{name: x, image: y}'' []
             (first_request (environ demo_world)
                (build_prompt demo_world ''repo'' demo_context (Some ''{a}'')))
           = Returned ''{name: x, image: y}''"
    by (simp add: always_returns_def)
  have m: "(0::int) \<le> 3" by simp
  have g: "generate_devcontainer_json demo_world (always_returns ''{name: x, image: y}'')
             ''repo'' demo_context (Some []) 3 False
           = generate_fresh demo_world (always_returns ''{name: x, image: y}'')
               ''repo'' demo_context (Some ''{a}'') (Some []) 3 False"
    by (rule generate_proceeds [OF a demo_context_extract t])
  have f: "generate_fresh demo_world (always_returns ''{name: x, image: y}'')
             ''repo'' demo_context (Some ''{a}'') (Some []) 3 False
           = (Inr (''{a}'', Some []),
              [first_request (environ demo_world)
                 (build_prompt demo_world ''repo'' demo_context (Some ''{a}''))])"
    using generate_fresh_first_valid [of "always_returns ''{name: x, image: y}''" demo_world
        "''repo''" demo_context "Some ''{a}''" "''{name: x, image: y}''" 3 "Some []" False,
        OF r demo_validate_ok m]
    by simp
  show ?thesis using a by (simp add: g f)
qed

text \<open>
  Claim C9, as amended. Let the first call of an attempt raise an exception that is not
  an \<open>AttributeError\<close>, whose message does not have the signature of a failed function
  call (which is tested first) and does have that of an unsupported temperature
  (\<open>does not support\<close> or \<open>temperature\<close> occurs in the lower-cased message). Then the
  attempt makes exactly one more call, with the same model, response model and
  messages and without the temperature, and the attempt ends with what that call gives:
  its output goes on to validation, and an exception of it goes to the outer handler
  without a further call.
\<close>

theorem temperature_retry_once:
  assumes "cl calls (first_request (environ w) prompt) = Raised e"
    and "class_of e \<noteq> AttributeError"
    and "\<not> tool_failure (str_of e)"
    and "temperature_unsupported (str_of e)"
  shows "\<exists>req req2.
           req = first_request (environ w) prompt
         \<and> req2 = req\<lparr>req_temperature := None\<rparr>
         \<and> req_temperature req = Some (1 / 10)
         \<and> req_model req2 = req_model req
         \<and> req_response_model req2 = req_response_model req
         \<and> req_messages req2 = req_messages req
         \<and> snd (run_attempt w cl prompt existing url regenerate max_retries attempt calls)
             = calls @ [req, req2]
         \<and> fst (run_attempt w cl prompt existing url regenerate max_retries attempt calls)
             = (case cl (calls @ [req]) req2 of
                  Returned devcontainer_json \<Rightarrow>
                    accept_or_retry w existing url regenerate max_retries attempt devcontainer_json
                | Raised e2 \<Rightarrow> outer_except attempt max_retries e2)"
  using assms
  by (simp add: run_attempt_def Let_def first_request_def split: call_result.splits)

lemma rejects_temperature_signature:
  "\<not> tool_failure ''Unsupported parameter: temperature is not supported with this model.''
   \<and> temperature_unsupported ''Unsupported parameter: temperature is not supported with this model.''"
  by (simp add: tool_failure_def temperature_unsupported_def str_lower_def lower_char_def
      str_in_def startswith_def)

theorem temperature_retry_once_witness:
  "rejects_temperature [] (first_request (environ demo_world) ''prompt'')
     = Raised (Exn OtherException ''Unsupported parameter: temperature is not supported with this model.'')
   \<and> class_of (Exn OtherException ''Unsupported parameter: temperature is not supported with this model.'')
       \<noteq> AttributeError
   \<and> \<not> tool_failure (str_of (Exn OtherException ''Unsupported parameter: temperature is not supported with this model.''))
   \<and> temperature_unsupported (str_of (Exn OtherException ''Unsupported parameter: temperature is not supported with this model.''))
   \<and> run_attempt demo_world rejects_temperature ''prompt'' None None False 3 0 []
       = (Return (''{name: x, image: y}'', None),
          [first_request (environ demo_world) ''prompt'',
           (first_request (environ demo_world) ''prompt'')\<lparr>req_temperature := None\<rparr>])"
proof -
  let ?e = "Exn OtherException ''Unsupported parameter: temperature is not supported with this model.''"
  have a: "rejects_temperature [] (first_request (environ demo_world) ''prompt'') = Raised ?e"
    by (simp add: rejects_temperature_def first_request_def)
  have b: "class_of ?e \<noteq> AttributeError" by simp
  have c: "\<not> tool_failure (str_of ?e)" using rejects_temperature_signature by simp
  have d: "temperature_unsupported (str_of ?e)" using rejects_temperature_signature by simp
  have r: "rejects_temperature [first_request (environ demo_world) ''prompt'']
             ((first_request (environ demo_world) ''prompt'')\<lparr>req_temperature := None\<rparr>)
           = Returned ''{name: x, image: y}''"
    by (simp add: rejects_temperature_def)
  have v: "accept_or_retry demo_world None None False 3 0 ''{name: x, image: y}''
             = Return (''{name: x, image: y}'', None)"
    by (simp add: accept_or_retry_def demo_validate_ok)
  from temperature_retry_once [of rejects_temperature "[]" demo_world "''prompt''" ?e None None False 3 0,
      OF a b c d]
  have "run_attempt demo_world rejects_temperature ''prompt'' None None False 3 0 []
       = (Return (''{name: x, image: y}'', None),
          [first_request (environ demo_world) ''prompt'',
           (first_request (environ demo_world) ''prompt'')\<lparr>req_temperature := None\<rparr>])"
    by (simp add: r v prod_eq_iff)
  with a b c d show ?thesis by simp
qed

text \<open>
  Claim C9 as stated fails for a call whose error has the temperature signature and is
  handled before that signature is looked at: a message that also has the signature of a
  failed function call, and an \<open>AttributeError\<close>. In both cases the attempt makes no
  second call.
\<close>

theorem temperature_retry_counterexample:
  "(temperature_unsupported ''Failed to call a function: temperature is not supported''
    \<and> snd (run_attempt demo_world
             (always_raises (Exn OtherException ''Failed to call a function: temperature is not supported''))
             ''prompt'' None None False 3 0 [])
        = [first_request (environ demo_world) ''prompt''])
   \<and> (temperature_unsupported ''object has no attribute temperature''
    \<and> snd (run_attempt demo_world
             (always_raises (Exn AttributeError ''object has no attribute temperature''))
             ''prompt'' None None False 3 0 [])
        = [first_request (environ demo_world) ''prompt''])"
proof -
  have a: "temperature_unsupported ''Failed to call a function: temperature is not supported''"
    by (simp add: temperature_unsupported_def str_lower_def lower_char_def str_in_def
        startswith_def)
  have b: "tool_failure ''Failed to call a function: temperature is not supported''"
    by (simp add: tool_failure_def str_lower_def lower_char_def str_in_def startswith_def)
  have c: "temperature_unsupported ''object has no attribute temperature''"
    by (simp add: temperature_unsupported_def str_lower_def lower_char_def str_in_def
        startswith_def)
  have d: "snd (run_attempt demo_world
             (always_raises (Exn OtherException ''Failed to call a function: temperature is not supported''))
             ''prompt'' None None False 3 0 [])
        = [first_request (environ demo_world) ''prompt'']"
    using b by (simp add: run_attempt_def Let_def always_raises_def)
  have e: "snd (run_attempt demo_world
             (always_raises (Exn AttributeError ''object has no attribute temperature''))
             ''prompt'' None None False 3 0 [])
        = [first_request (environ demo_world) ''prompt'']"
    by (simp add: run_attempt_def Let_def always_raises_def)
  from a c d e show ?thesis by simp
qed











text \<open>Every request that the orchestrator sends carries the model computed on line 93.\<close>

lemma first_request_model: "req_model (first_request env prompt) = model_for_call env"
  by (simp add: first_request_def)

lemma run_attempt_models:
  assumes "\<forall>r \<in> set calls. req_model r = model_for_call (environ w)"
  shows "\<forall>r \<in> set (snd (run_attempt w cl prompt existing url regenerate max_retries attempt calls)).
           req_model r = model_for_call (environ w)"
  using assms
  by (simp add: run_attempt_def Let_def first_request_model split: call_result.splits)

lemma for_attempts_models:
  assumes "\<And>a c. \<forall>r \<in> set c. P r \<Longrightarrow> \<forall>r \<in> set (snd (body a c)). P r"
  shows "\<forall>r \<in> set calls. P r \<Longrightarrow> \<forall>r \<in> set (snd (for_attempts body as calls)). P r"
proof (induction as arbitrary: calls)
  case Nil then show ?case by simp
next
  case (Cons a as)
  obtain f c' where b: "body a calls = (f, c')" by (cases "body a calls")
  with assms [OF Cons.prems, of a] have c: "\<forall>r \<in> set c'. P r" by simp
  with Cons.IH [OF c] b show ?case by (cases f) simp_all
qed

lemma generate_fresh_models:
  "\<forall>r \<in> set (snd (generate_fresh w cl repo_url ctx existing url m regenerate)).
     req_model r = model_for_call (environ w)"
  unfolding generate_fresh_def Let_def
  by (rule for_attempts_models [where P = "\<lambda>r. req_model r = model_for_call (environ w)"])
     (simp_all add: run_attempt_models)

lemma generate_models:
  "\<forall>r \<in> set (snd (generate_devcontainer_json w cl repo_url ctx url m regenerate)).
     req_model r = model_for_call (environ w)"
  using generate_fresh_models [of w cl repo_url ctx _ url m regenerate]
  by (simp add: generate_devcontainer_json_def split: sum.splits)

lemma anthropic_validate_ok:
  "fst (validate_devcontainer_json anthropic_world ''{name: x, image: y}'') = Inr True"
  by (simp add: validate_devcontainer_json_def anthropic_world_def demo_world_def demo_loads_def
      demo_best_match_def startswith_def str_in_def)

text \<open>
  Claim C7 does not hold of the code. With \<open>LLM_PROVIDER=Anthropic\<close> and
  \<open>MODEL=gpt-4o-mini\<close> the override is not compatible with the provider, and
  \<open>get_default_model\<close> would replace it by the provider's default
  \<open>claude-3-5-sonnet-20241022\<close>; but line 93 takes a non-empty override as it is, and
  the one request of a successful generation carries \<open>gpt-4o-mini\<close>.
\<close>

theorem incompatible_override_reaches_provider:
  "get_provider (environ anthropic_world) = ''Anthropic''
   \<and> fst (validate_model_for_provider ''gpt-4o-mini'' ''Anthropic'') = False
   \<and> get_default_model (environ anthropic_world) = ''claude-3-5-sonnet-20241022''
   \<and> model_for_call (environ anthropic_world) = ''gpt-4o-mini''
   \<and> fst (generate_devcontainer_json anthropic_world (always_returns ''{name: x, image: y}'')
        ''repo'' ''ctx'' None 3 False) = Inr (''{name: x, image: y}'', None)
   \<and> map req_model (snd (generate_devcontainer_json anthropic_world
        (always_returns ''{name: x, image: y}'') ''repo'' ''ctx'' None 3 False)) = [''gpt-4o-mini'']"
proof -
  let ?env = "[''LLM_PROVIDER'' \<mapsto> ''Anthropic'', ''MODEL'' \<mapsto> ''gpt-4o-mini'']"
  have env: "environ anthropic_world = ?env" by (simp add: anthropic_world_def)
  have p: "get_provider ?env = ''Anthropic''"
    by (simp add: get_provider_def SUPPORTED_PROVIDERS_def)
  have v: "fst (validate_model_for_provider ''gpt-4o-mini'' ''Anthropic'') = False"
    by (simp add: validate_model_for_provider_def valid_models_def str_in_def startswith_def)
  have d: "get_default_model ?env = ''claude-3-5-sonnet-20241022''"
    by (simp add: get_default_model_def Let_def p v defaults_def)
  have m: "model_for_call ?env = ''gpt-4o-mini''"
    by (simp add: model_for_call_def)
  have n: "\<not> str_in EXISTING_START ''ctx''"
    by (simp add: str_in_def EXISTING_START_def startswith_def)
  have r: "always_returns ''{name: x, image: y}'' []
             (first_request (environ anthropic_world)
                (build_prompt anthropic_world ''repo'' ''ctx'' None))
           = Returned ''{name: x, image: y}''"
    by (simp add: always_returns_def)
  have z: "(0::int) \<le> 3" by simp
  have g: "generate_devcontainer_json anthropic_world (always_returns ''{name: x, image: y}'')
        ''repo'' ''ctx'' None 3 False
      = (Inr (''{name: x, image: y}'', None),
         [first_request (environ anthropic_world)
            (build_prompt anthropic_world ''repo'' ''ctx'' None)])"
    using generate_fresh_first_valid [of "always_returns ''{name: x, image: y}''" anthropic_world
        "''repo''" "''ctx''" None "''{name: x, image: y}''" 3 None False,
        OF r anthropic_validate_ok z] n
    by (simp add: generate_devcontainer_json_def)
  from p v d m show ?thesis
    unfolding g env by (simp add: first_request_model)
qed

end
